theory Spec2Isabelle
  imports Complex_Main "HOL-Library.AList" "HOL-Library.Log_Nat" "HOL-Library.Sublist"
begin

section \<open>PortfolioTracker: the computations of js/app.js\<close>

text \<open>
  The theory embeds the computational part of \<^verbatim>\<open>js/app.js\<close>: the currency converter
  (\<^verbatim>\<open>convertToEUR\<close>, \<^verbatim>\<open>getCurrencyFromTicker\<close>), the aggregation of transactions into
  positions (\<^verbatim>\<open>calculatePositions\<close>), the averages and the part of \<^verbatim>\<open>init\<close> between
  the loading of the transactions and the rendering of the tables.

  Conventions of the embedding.
  \<^item> A JavaScript number is a \<^typ>\<open>real\<close>; \<^verbatim>\<open>NaN\<close> and the infinities are outside the
    model. The running quantity of a position is updated by \<^verbatim>\<open>+=\<close> and \<^verbatim>\<open>-=\<close> on IEEE
    doubles, in the order of the ledger: these two updates round their exact result to
    the nearest double (\<open>jsAdd\<close>, \<open>jsSub\<close> below), since a claim compares their
    outcome with sums taken in another order. The arithmetic of the valuation is exact.
    Every division of the source by a computed value is guarded by a test \<^verbatim>\<open>> 0\<close> on
    the divisor, and the model keeps the guards.
  \<^item> A value that may be \<^verbatim>\<open>null\<close> or \<^verbatim>\<open>undefined\<close> is an \<^typ>\<open>'a option\<close>, with
    \<^term>\<open>None\<close> for both.
  \<^item> A string is a \<^typ>\<open>string\<close>; \<^verbatim>\<open>toUpperCase\<close> acts on the ASCII letters, which is
    all the currency codes of the program contain.
  \<^item> The fields of the JavaScript objects keep their names behind a prefix that tells
    the kind of object (\<open>tx_\<close>, \<open>lot_\<close>, \<open>pos_\<close>, \<open>open_\<close>, \<open>closed_\<close>), since
    several kinds of object share field names.
\<close>

subsection \<open>JavaScript helpers\<close>

text \<open>\<^verbatim>\<open>v || d\<close> on a number that may be missing: \<^verbatim>\<open>undefined\<close>, \<^verbatim>\<open>null\<close> and \<^verbatim>\<open>0\<close> are falsy.\<close>

definition truthyOr :: "real option \<Rightarrow> real \<Rightarrow> real" where
  "truthyOr v d = (case v of None \<Rightarrow> d | Some x \<Rightarrow> if x = 0 then d else x)"

text \<open>
  The rounding of a real number to an IEEE 754 binary64 value, to nearest with ties to
  even: the result is a multiple of \<open>2\<^sup>q\<close>, where \<open>q\<close> is 52 below the binary exponent of the
  number and at least \<open>- 1074\<close> (the subnormal range). A result beyond the largest double
  would be \<^verbatim>\<open>Infinity\<close> in JavaScript and is outside the model.
\<close>

definition roundHalfEven :: "real \<Rightarrow> int" where
  "roundHalfEven y =
     (let f = \<lfloor>y\<rfloor>; r = y - of_int f
      in if r < 1 / 2 then f else if 1 / 2 < r then f + 1 else if even f then f else f + 1)"

text \<open>\<open>\<lfloor>log\<^sub>2 a\<rfloor>\<close> for \<open>a > 0\<close>, computed on integers.\<close>

definition binaryExponent :: "real \<Rightarrow> int" where
  "binaryExponent a = (if 1 \<le> a then bitlen \<lfloor>a\<rfloor> - 1 else - bitlen (\<lceil>1 / a\<rceil> - 1))"

definition toDouble :: "real \<Rightarrow> real" where
  "toDouble x =
     (if x = 0 then 0
      else
        let q = max (binaryExponent \<bar>x\<bar> - 52) (- 1074);
            n = roundHalfEven (if 0 \<le> q then \<bar>x\<bar> / 2 ^ nat q else \<bar>x\<bar> * 2 ^ nat (- q))
        in sgn x * (if 0 \<le> q then of_int n * 2 ^ nat q else of_int n / 2 ^ nat (- q)))"

text \<open>\<^verbatim>\<open>x + y\<close> and \<^verbatim>\<open>x - y\<close> on doubles.\<close>

definition jsAdd :: "real \<Rightarrow> real \<Rightarrow> real" where
  "jsAdd x y = toDouble (x + y)"

definition jsSub :: "real \<Rightarrow> real \<Rightarrow> real" where
  "jsSub x y = toDouble (x - y)"

definition toUpperChar :: "char \<Rightarrow> char" where
  "toUpperChar c =
     (case map_of (zip ''abcdefghijklmnopqrstuvwxyz'' ''ABCDEFGHIJKLMNOPQRSTUVWXYZ'') c of
        Some u \<Rightarrow> u
      | None \<Rightarrow> c)"

definition toUpperCase :: "string \<Rightarrow> string" where
  "toUpperCase s = map toUpperChar s"

definition endsWith :: "string \<Rightarrow> string \<Rightarrow> bool" where
  "endsWith s suf = (length suf \<le> length s \<and> drop (length s - length suf) s = suf)"

subsection \<open>Currency converter\<close>

text \<open>
  The rate table is the object built by \<^verbatim>\<open>fetchExchangeRates\<close>, read as a map from its
  own keys to numbers. The keys looked up are \<^verbatim>\<open>GBP\<close> and an uppercased code; no
  property inherited from \<^verbatim>\<open>Object.prototype\<close> has such a name, so the lookup sees own
  keys only.
\<close>

type_synonym rateTable = "string \<rightharpoonup> real"

definition convertToEUR :: "real option \<Rightarrow> string \<Rightarrow> rateTable \<Rightarrow> real option" where
  "convertToEUR price localCurrency rates =
     (case price of
        None \<Rightarrow> None
      | Some p \<Rightarrow>
          if localCurrency = ''GBX'' then Some ((p / 100) * truthyOr (rates ''GBP'') (117 / 100))
          else
            let currency = toUpperCase localCurrency in
            if currency = ''EUR'' then Some p
            else
              (case rates currency of
                 Some rate \<Rightarrow> if rate \<noteq> 0 then Some (p * rate) else Some p
               | None \<Rightarrow> Some p))"

definition getCurrencyFromTicker :: "string \<Rightarrow> string" where
  "getCurrencyFromTicker ticker =
     (if endsWith ticker ''.L'' then ''GBX''
      else if endsWith ticker ''.AS'' then ''EUR''
      else if endsWith ticker ''.DE'' then ''EUR''
      else if endsWith ticker ''.ST'' then ''SEK''
      else if endsWith ticker ''.WA'' then ''PLN''
      else ''USD'')"

subsection \<open>Transactions, lots and positions\<close>

text \<open>
  A transaction is an element of the \<^verbatim>\<open>transactions\<close> array of \<^verbatim>\<open>data/transactions.json\<close>,
  with the fields the program reads. \<^verbatim>\<open>type\<close> stays a string, so that a kind other than
  \<^verbatim>\<open>buy\<close> and \<^verbatim>\<open>sell\<close> can be written down; \<^verbatim>\<open>totalCosts\<close> may be missing.
\<close>

record transaction =
  tx_yahooTicker :: string
  tx_name :: string
  tx_type :: string
  tx_quantity :: real
  tx_pricePerShare :: real
  tx_localCurrency :: string
  tx_eurValue :: real
  tx_totalCosts :: "real option"
  tx_totalEur :: real

record lot =
  lot_quantity :: real
  lot_pricePerShare :: real
  lot_localCurrency :: string
  lot_eurValue :: real
  lot_totalCosts :: real
  lot_totalEur :: real

record position =
  pos_ticker :: string
  pos_name :: string
  pos_localCurrency :: string
  pos_buys :: "lot list"
  pos_sells :: "lot list"
  pos_currentQuantity :: real

text \<open>
  \<^verbatim>\<open>positionsByTicker\<close> is an object literal \<^verbatim>\<open>{}\<close>: its own properties are the positions,
  kept here in the order of their creation, and its prototype is \<^verbatim>\<open>Object.prototype\<close>.
  Reading \<^verbatim>\<open>positionsByTicker[ticker]\<close> finds an own property first and then a property
  of the prototype, all of which are functions or objects, hence truthy.
\<close>

type_synonym positions = "(string \<times> position) list"

definition objectPrototypeKeys :: "string list" where
  "objectPrototypeKeys =
     [''constructor'', ''__defineGetter__'', ''__defineSetter__'', ''hasOwnProperty'',
      ''__lookupGetter__'', ''__lookupSetter__'', ''isPrototypeOf'', ''propertyIsEnumerable'',
      ''toString'', ''valueOf'', ''__proto__'', ''toLocaleString'']"

datatype property = Own position | Inherited | Undefined

definition getProperty :: "positions \<Rightarrow> string \<Rightarrow> property" where
  "getProperty ps k =
     (case map_of ps k of
        Some p \<Rightarrow> Own p
      | None \<Rightarrow> if k \<in> set objectPrototypeKeys then Inherited else Undefined)"

text \<open>What the program can throw between the loading of the transactions and the rendering.\<close>

datatype error = NoTransactionsFound | TypeError

subsection \<open>Position aggregator\<close>

definition newPosition :: "transaction \<Rightarrow> position" where
  "newPosition tx =
     \<lparr>pos_ticker = tx_yahooTicker tx, pos_name = tx_name tx,
      pos_localCurrency = tx_localCurrency tx, pos_buys = [], pos_sells = [],
      pos_currentQuantity = 0\<rparr>"

definition newLot :: "transaction \<Rightarrow> lot" where
  "newLot tx =
     \<lparr>lot_quantity = tx_quantity tx, lot_pricePerShare = tx_pricePerShare tx,
      lot_localCurrency = tx_localCurrency tx, lot_eurValue = tx_eurValue tx,
      lot_totalCosts = truthyOr (tx_totalCosts tx) 0, lot_totalEur = tx_totalEur tx\<rparr>"

text \<open>
  The body of the \<^verbatim>\<open>forEach\<close> of \<^verbatim>\<open>calculatePositions\<close>. When \<^verbatim>\<open>position\<close> is not one
  of the objects the loop created, \<^verbatim>\<open>position.buys\<close> is \<^verbatim>\<open>undefined\<close> and the call of
  \<^verbatim>\<open>push\<close> on it throws a TypeError; a transaction of another kind reads nothing of
  \<^verbatim>\<open>position\<close>.
\<close>

definition applyTransaction :: "positions \<Rightarrow> transaction \<Rightarrow> error + positions" where
  "applyTransaction positionsByTicker tx =
     (let ticker = tx_yahooTicker tx;
          positionsByTicker1 =
            (if getProperty positionsByTicker ticker = Undefined
             then AList.update ticker (newPosition tx) positionsByTicker
             else positionsByTicker)
      in case getProperty positionsByTicker1 ticker of
           Own position \<Rightarrow>
             if tx_type tx = ''buy'' then
               Inr (AList.update ticker
                      (position\<lparr>pos_buys := pos_buys position @ [newLot tx],
                                pos_currentQuantity :=
                                  jsAdd (pos_currentQuantity position) (tx_quantity tx)\<rparr>)
                      positionsByTicker1)
             else if tx_type tx = ''sell'' then
               Inr (AList.update ticker
                      (position\<lparr>pos_sells := pos_sells position @ [newLot tx],
                                pos_currentQuantity :=
                                  jsSub (pos_currentQuantity position) (tx_quantity tx)\<rparr>)
                      positionsByTicker1)
             else Inr positionsByTicker1
         | _ \<Rightarrow>
             if tx_type tx = ''buy'' \<or> tx_type tx = ''sell'' then Inl TypeError
             else Inr positionsByTicker1)"

fun forEachTransaction :: "positions \<Rightarrow> transaction list \<Rightarrow> error + positions" where
  "forEachTransaction ps [] = Inr ps"
| "forEachTransaction ps (tx # txs) =
     (case applyTransaction ps tx of
        Inl e \<Rightarrow> Inl e
      | Inr ps' \<Rightarrow> forEachTransaction ps' txs)"

definition calculatePositions :: "transaction list \<Rightarrow> error + positions" where
  "calculatePositions transactions = forEachTransaction [] transactions"

subsection \<open>Averages and costs\<close>

definition calculateAvgBuyPrice :: "lot list \<Rightarrow> real" where
  "calculateAvgBuyPrice buys =
     (if length buys = 0 then 0
      else
        let totalCost = foldl (\<lambda>s buy. s + lot_totalEur buy) 0 buys;
            totalQuantity = foldl (\<lambda>s buy. s + lot_quantity buy) 0 buys
        in if totalQuantity > 0 then totalCost / totalQuantity else 0)"

definition calculateAvgSellPrice :: "lot list \<Rightarrow> real" where
  "calculateAvgSellPrice sells =
     (if length sells = 0 then 0
      else
        let totalValue = foldl (\<lambda>s sell. s + lot_eurValue sell) 0 sells;
            totalQuantity = foldl (\<lambda>s sell. s + lot_quantity sell) 0 sells
        in if totalQuantity > 0 then totalValue / totalQuantity else 0)"

definition calculateTotalCosts :: "lot list \<Rightarrow> lot list \<Rightarrow> real" where
  "calculateTotalCosts buys sells =
     foldl (\<lambda>total s. total + truthyOr (Some (lot_totalCosts s)) 0)
       (foldl (\<lambda>total b. total + truthyOr (Some (lot_totalCosts b)) 0) 0 buys) sells"

subsection \<open>The values of the positions object\<close>

text \<open>
  \<^verbatim>\<open>Object.values\<close> lists the own properties whose names are array indices (canonical
  decimal numerals below \<open>2\<^sup>3\<^sup>2 - 1\<close>) first, in ascending numeric order, and the other
  properties after them in the order of their creation.
\<close>

definition digitOf :: "char \<Rightarrow> nat option" where
  "digitOf c = map_of (zip ''0123456789'' [0, 1, 2, 3, 4, 5, 6, 7, 8, 9]) c"

definition arrayIndex :: "string \<Rightarrow> nat option" where
  "arrayIndex s =
     (if s = [] \<or> \<not> list_all (\<lambda>c. digitOf c \<noteq> None) s \<or> (1 < length s \<and> hd s = CHR ''0'')
      then None
      else
        let n = foldl (\<lambda>n c. 10 * n + the (digitOf c)) 0 s
        in if n < 4294967295 then Some n else None)"

definition objectValues :: "positions \<Rightarrow> position list" where
  "objectValues ps =
     map snd
       (sort_key (\<lambda>kv. the (arrayIndex (fst kv))) (filter (\<lambda>kv. arrayIndex (fst kv) \<noteq> None) ps)
        @ filter (\<lambda>kv. arrayIndex (fst kv) = None) ps)"

subsection \<open>Valuation\<close>

text \<open>The loop of \<^verbatim>\<open>init\<close> that separates open and closed positions.\<close>

definition separateStep ::
    "position list \<times> position list \<Rightarrow> position \<Rightarrow> position list \<times> position list" where
  "separateStep acc pos =
     (case acc of (openPositions, closedPositions) \<Rightarrow>
        if pos_currentQuantity pos > 0 then (openPositions @ [pos], closedPositions)
        else if length (pos_sells pos) > 0 then (openPositions, closedPositions @ [pos])
        else (openPositions, closedPositions))"

definition separatePositions :: "position list \<Rightarrow> position list \<times> position list" where
  "separatePositions vals = foldl separateStep ([], []) vals"

record openRecord =
  open_ticker :: string
  open_name :: string
  open_quantity :: real
  open_avgBuyPrice :: real
  open_currentPriceEUR :: "real option"
  open_currentValue :: "real option"
  open_pl :: "real option"
  open_plPercent :: "real option"
  open_portfolioPercent :: "real option"

record closedRecord =
  closed_ticker :: string
  closed_name :: string
  closed_quantityTraded :: real
  closed_avgBuyPrice :: real
  closed_avgSellPrice :: real
  closed_totalCosts :: real
  closed_realizedPL :: real

text \<open>
  The callback of \<^verbatim>\<open>openPositions.map\<close>. \<^verbatim>\<open>stockPrices\<close> holds, for every ticker of the
  transactions, what \<^verbatim>\<open>fetchYahooPrice\<close> returned (a price or \<^verbatim>\<open>null\<close>), and
  \<^verbatim>\<open>exchangeRates\<close> what \<^verbatim>\<open>fetchExchangeRates\<close> returned; both are parameters here.
  \<^verbatim>\<open>portfolioPercent\<close> is not set by the callback.
\<close>

definition openMetrics :: "(string \<Rightarrow> real option) \<Rightarrow> rateTable \<Rightarrow> position \<Rightarrow> openRecord" where
  "openMetrics stockPrices exchangeRates pos =
     (let avgBuyPrice = calculateAvgBuyPrice (pos_buys pos);
          localCurrency = getCurrencyFromTicker (pos_ticker pos);
          currentLocalPrice = stockPrices (pos_ticker pos);
          currentPriceEUR = convertToEUR currentLocalPrice localCurrency exchangeRates;
          invested = avgBuyPrice * pos_currentQuantity pos;
          currentValue =
            (case currentPriceEUR of
               Some c \<Rightarrow> Some (c * pos_currentQuantity pos)
             | None \<Rightarrow> None);
          pl = (case currentValue of Some v \<Rightarrow> Some (v - invested) | None \<Rightarrow> None);
          plPercent =
            (case pl of
               Some l \<Rightarrow> if invested > 0 then Some ((l / invested) * 100) else None
             | None \<Rightarrow> None)
      in \<lparr>open_ticker = pos_ticker pos, open_name = pos_name pos,
          open_quantity = pos_currentQuantity pos, open_avgBuyPrice = avgBuyPrice,
          open_currentPriceEUR = currentPriceEUR, open_currentValue = currentValue,
          open_pl = pl, open_plPercent = plPercent, open_portfolioPercent = None\<rparr>)"

definition setPortfolioPercent :: "real \<Rightarrow> openRecord \<Rightarrow> openRecord" where
  "setPortfolioPercent totalPortfolioValue d =
     d\<lparr>open_portfolioPercent :=
         (case open_currentValue d of
            Some v \<Rightarrow>
              if totalPortfolioValue > 0 then Some ((v / totalPortfolioValue) * 100) else None
          | None \<Rightarrow> None)\<rparr>"

definition closedMetrics :: "position \<Rightarrow> closedRecord" where
  "closedMetrics pos =
     (let avgBuyPrice = calculateAvgBuyPrice (pos_buys pos);
          avgSellPrice = calculateAvgSellPrice (pos_sells pos);
          totalQtySold = foldl (\<lambda>sum s. sum + lot_quantity s) 0 (pos_sells pos);
          totalCosts = calculateTotalCosts (pos_buys pos) (pos_sells pos);
          sellCosts =
            foldl (\<lambda>sum s. sum + truthyOr (Some (lot_totalCosts s)) 0) 0 (pos_sells pos);
          realizedPL = (avgSellPrice - avgBuyPrice) * totalQtySold - sellCosts
      in \<lparr>closed_ticker = pos_ticker pos, closed_name = pos_name pos,
          closed_quantityTraded = totalQtySold, closed_avgBuyPrice = avgBuyPrice,
          closed_avgSellPrice = avgSellPrice, closed_totalCosts = totalCosts,
          closed_realizedPL = realizedPL\<rparr>)"

subsection \<open>The pipeline of init\<close>

text \<open>
  What \<^verbatim>\<open>init\<close> hands to the rendering functions and to \<^verbatim>\<open>updateSummary\<close>. The three
  totals of the open positions are accumulated by the callback of \<^verbatim>\<open>openPositions.map\<close>;
  here they are sums over its results (\<^verbatim>\<open>invested\<close> is \<^verbatim>\<open>avgBuyPrice * quantity\<close>).
\<close>

record dashboard =
  openData :: "openRecord list"
  closedData :: "closedRecord list"
  totalPortfolioValue :: real
  totalInvested :: real
  totalUnrealizedPL :: real
  totalRealizedPL :: real

definition addKnown :: "real \<Rightarrow> real option \<Rightarrow> real" where
  "addKnown acc v = (case v of Some x \<Rightarrow> acc + x | None \<Rightarrow> acc)"

text \<open>
  The body of the \<^verbatim>\<open>try\<close> block of \<^verbatim>\<open>init\<close>, from the loaded transactions to the data
  rendered: \<^term>\<open>Inl e\<close> is an exception thrown to the \<^verbatim>\<open>catch\<close> block, which replaces
  the table of open positions by an error row.
\<close>

definition init ::
    "(string \<Rightarrow> real option) \<Rightarrow> rateTable \<Rightarrow> transaction list \<Rightarrow> error + dashboard" where
  "init stockPrices exchangeRates transactions =
     (if length transactions = 0 then Inl NoTransactionsFound
      else
        case calculatePositions transactions of
          Inl e \<Rightarrow> Inl e
        | Inr positions \<Rightarrow>
            (case separatePositions (objectValues positions) of
               (openPositions, closedPositions) \<Rightarrow>
                 let openData0 = map (openMetrics stockPrices exchangeRates) openPositions;
                     totalValue = foldl (\<lambda>t d. addKnown t (open_currentValue d)) 0 openData0;
                     closedData0 = map closedMetrics closedPositions
                 in Inr \<lparr>openData = map (setPortfolioPercent totalValue) openData0,
                         closedData = closedData0,
                         totalPortfolioValue = totalValue,
                         totalInvested =
                           foldl (\<lambda>t d. t + open_avgBuyPrice d * open_quantity d) 0 openData0,
                         totalUnrealizedPL = foldl (\<lambda>t d. addKnown t (open_pl d)) 0 openData0,
                         totalRealizedPL =
                           foldl (\<lambda>t d. t + closed_realizedPL d) 0 closedData0\<rparr>))"

subsection \<open>Closed form of the aggregation\<close>

text \<open>
  Auxiliary notions for the proofs. \<open>positionOf t txs\<close> is the position that the loop of
  \<^verbatim>\<open>calculatePositions\<close> has built for the ticker \<open>t\<close> once it has run over \<open>txs\<close> (its
  running quantity is the rounded updates of the ticker's transactions, in their order),
  and \<open>positionsOf txs\<close> the own properties of \<^verbatim>\<open>positionsByTicker\<close> at that point; that
  the loop computes them is lemma \<open>calculatePositions_positionsOf\<close> below. A transaction
  is \<open>throwing\<close> when the loop throws on it.
\<close>

definition quantityStep :: "real \<Rightarrow> transaction \<Rightarrow> real" where
  "quantityStep q tx =
     (if tx_type tx = ''buy'' then jsAdd q (tx_quantity tx)
      else if tx_type tx = ''sell'' then jsSub q (tx_quantity tx)
      else q)"

definition positionOf :: "string \<Rightarrow> transaction list \<Rightarrow> position" where
  "positionOf t txs =
     (let own = filter (\<lambda>tx. tx_yahooTicker tx = t) txs
      in \<lparr>pos_ticker = t, pos_name = tx_name (hd own), pos_localCurrency = tx_localCurrency (hd own),
          pos_buys = map newLot (filter (\<lambda>tx. tx_type tx = ''buy'') own),
          pos_sells = map newLot (filter (\<lambda>tx. tx_type tx = ''sell'') own),
          pos_currentQuantity = foldl quantityStep 0 own\<rparr>)"

definition positionsOf :: "transaction list \<Rightarrow> string \<rightharpoonup> position" where
  "positionsOf txs t =
     (if t \<in> tx_yahooTicker ` set txs \<and> t \<notin> set objectPrototypeKeys
      then Some (positionOf t txs) else None)"

definition throwing :: "transaction \<Rightarrow> bool" where
  "throwing tx \<longleftrightarrow>
     tx_yahooTicker tx \<in> set objectPrototypeKeys \<and> (tx_type tx = ''buy'' \<or> tx_type tx = ''sell'')"

subsection \<open>The net quantity of the specification\<close>

text \<open>
  The quantity that the specification assigns to an identifier: the sum of the quantities
  of its transactions of kind buy minus the sum of the quantities of its transactions of
  kind sell, as numbers (no rounding).
\<close>

definition netQuantity :: "string \<Rightarrow> transaction list \<Rightarrow> real" where
  "netQuantity t transactions =
     sum_list (map tx_quantity
       (filter (\<lambda>tx. tx_yahooTicker tx = t \<and> tx_type tx = ''buy'') transactions)) -
     sum_list (map tx_quantity
       (filter (\<lambda>tx. tx_yahooTicker tx = t \<and> tx_type tx = ''sell'') transactions))"

subsection \<open>Example data\<close>

text \<open>A transaction with the fields that the examples vary; the other fields are fixed.\<close>

definition mkTransaction ::
    "string \<Rightarrow> string \<Rightarrow> real \<Rightarrow> real \<Rightarrow> real option \<Rightarrow> real \<Rightarrow> transaction" where
  "mkTransaction ticker kind quantity eurValue totalCosts totalEur =
     \<lparr>tx_yahooTicker = ticker, tx_name = ticker, tx_type = kind, tx_quantity = quantity,
      tx_pricePerShare = 0, tx_localCurrency = ''EUR'', tx_eurValue = eurValue,
      tx_totalCosts = totalCosts, tx_totalEur = totalEur\<rparr>"

definition exampleBuy :: transaction where
  "exampleBuy = mkTransaction ''AAA'' ''buy'' 10 1000 (Some 20) 1020"

definition exampleDividend :: transaction where
  "exampleDividend = mkTransaction ''AAA'' ''dividend'' 2 7 None 7"

definition exampleSell :: transaction where
  "exampleSell = mkTransaction ''AAA'' ''sell'' 4 480 (Some 2) 478"

text \<open>A ledger of whole shares on which an update of the running quantity rounds.\<close>

definition exampleRounding :: "transaction list" where
  "exampleRounding =
     [mkTransaction ''AAA'' ''buy'' 10000000000000000 1000 None 1000,
      mkTransaction ''AAA'' ''sell'' 1 1 None 1,
      mkTransaction ''AAA'' ''sell'' 10000000000000000 1000 None 1000,
      mkTransaction ''AAA'' ''buy'' 1 1 None 1]"

definition exampleLedger :: "transaction list" where
  "exampleLedger =
     [mkTransaction ''AAA'' ''buy'' 10 1000 (Some 20) 1020,
      mkTransaction ''BBB.AS'' ''buy'' 5 500 None 500,
      mkTransaction ''AAA'' ''sell'' 4 480 (Some 2) 478,
      mkTransaction ''CCC'' ''dividend'' 1 7 None 7,
      mkTransaction ''BBB.AS'' ''sell'' 5 600 (Some 3) 597,
      mkTransaction ''AAA'' ''buy'' 3 300 None 300]"

definition examplePrices :: "string \<Rightarrow> real option" where
  "examplePrices = [''GIFT'' \<mapsto> 5, ''BBB.AS'' \<mapsto> 110]"

definition exampleRates :: rateTable where
  "exampleRates = [''EUR'' \<mapsto> 1, ''GBP'' \<mapsto> 6 / 5, ''USD'' \<mapsto> 1 / 2]"

definition exampleHoldings :: "transaction list" where
  "exampleHoldings =
     [mkTransaction ''GIFT'' ''buy'' 10 0 None 0,
      mkTransaction ''BBB.AS'' ''buy'' 10 990 (Some 10) 1000]"

definition exampleDashboard :: dashboard where
  "exampleDashboard =
     \<lparr>openData =
        [\<lparr>open_ticker = ''GIFT'', open_name = ''GIFT'', open_quantity = 10,
          open_avgBuyPrice = 0, open_currentPriceEUR = Some (5 / 2),
          open_currentValue = Some 25, open_pl = Some 25, open_plPercent = None,
          open_portfolioPercent = Some (20 / 9)\<rparr>,
         \<lparr>open_ticker = ''BBB.AS'', open_name = ''BBB.AS'', open_quantity = 10,
          open_avgBuyPrice = 100, open_currentPriceEUR = Some 110,
          open_currentValue = Some 1100, open_pl = Some 100, open_plPercent = Some 10,
          open_portfolioPercent = Some (880 / 9)\<rparr>],
      closedData = [], totalPortfolioValue = 1125, totalInvested = 1000,
      totalUnrealizedPL = 125, totalRealizedPL = 0\<rparr>"

section \<open>Properties\<close>

subsection \<open>Unfolding for concrete inputs\<close>

lemmas rounding_defs =
  jsAdd_def jsSub_def toDouble_def binaryExponent_def roundHalfEven_def bitlen_def
  compute_floorlog quantityStep_def

lemmas aggregate_defs =
  calculatePositions_def applyTransaction_def getProperty_def objectPrototypeKeys_def
  newPosition_def newLot_def truthyOr_def Let_def rounding_defs

lemmas valuation_defs =
  init_def objectValues_def arrayIndex_def digitOf_def separatePositions_def separateStep_def
  closedMetrics_def openMetrics_def setPortfolioPercent_def calculateAvgBuyPrice_def
  calculateAvgSellPrice_def calculateTotalCosts_def addKnown_def convertToEUR_def
  getCurrencyFromTicker_def endsWith_def toUpperCase_def toUpperChar_def

lemmas example_defs =
  mkTransaction_def exampleBuy_def exampleDividend_def exampleSell_def

subsection \<open>Facts about the helpers\<close>

lemma toUpperCase_GBX: "toUpperCase ''GBX'' = ''GBX''"
  by (simp add: toUpperCase_def toUpperChar_def)

lemma toUpperCase_gbx: "toUpperCase ''gbx'' = ''GBX''"
  by (simp add: toUpperCase_def toUpperChar_def)

lemma toUpperCase_eur: "toUpperCase ''eur'' = ''EUR''"
  by (simp add: toUpperCase_def toUpperChar_def)

lemma toUpperCase_EUR_not_GBX: "toUpperCase s = ''EUR'' \<Longrightarrow> s \<noteq> ''GBX''"
  using toUpperCase_GBX by auto

text \<open>Whole numbers up to \<open>2\<^sup>5\<^sup>3\<close> in absolute value are doubles.\<close>

lemma roundHalfEven_of_int: "roundHalfEven (of_int z) = z"
  by (simp add: roundHalfEven_def)

lemma toDouble_of_nat:
  assumes "n \<le> 2 ^ 53"
  shows "toDouble (of_nat n) = of_nat n"
proof (cases "n = 0")
  case True
  then show ?thesis by (simp add: toDouble_def)
next
  case False
  then have pos: "0 < int n" by simp
  from assms have "int n \<le> int (2 ^ 53)"
    by (simp only: of_nat_le_iff)
  then have n53: "int n \<le> 2 ^ 53" by simp
  define k where "k = bitlen (int n) - 1"
  from bitlen_bounds [OF pos] have lo: "2 ^ nat k \<le> int n" and hi: "int n < 2 ^ nat (k + 1)"
    by (simp_all add: k_def)
  have k0: "0 \<le> k"
    using pos by (simp add: k_def bitlen_def floorlog_def)
  have k53: "k \<le> 53"
  proof (rule ccontr)
    assume "\<not> k \<le> 53"
    then have "54 \<le> nat k" by simp
    then have "(2::int) ^ 54 \<le> 2 ^ nat k"
      by (intro power_increasing) simp_all
    moreover have "(2::int) ^ 53 < 2 ^ 54" by simp
    ultimately show False
      using lo n53 by linarith
  qed
  have be: "binaryExponent (real n) = k"
    using False by (simp add: binaryExponent_def k_def)
  have q: "max (binaryExponent (real n) - 52) (- 1074) = k - 52"
    using k0 by (simp add: be)
  show ?thesis
  proof (cases "k - 52 < 0")
    case True
    have "real n * 2 ^ nat (52 - k) = of_int (int n * 2 ^ nat (52 - k))"
      by simp
    then have "roundHalfEven (real n * 2 ^ nat (52 - k)) = int n * 2 ^ nat (52 - k)"
      by (simp only: roundHalfEven_of_int)
    then show ?thesis
      using True False by (simp add: toDouble_def q Let_def)
  next
    case ge: False
    show ?thesis
    proof (cases "k = 52")
      case True
      have "roundHalfEven (real n) = int n"
        using roundHalfEven_of_int [of "int n"] by simp
      then show ?thesis
        using True False by (simp add: toDouble_def q Let_def)
    next
      case False
      with ge k53 have k: "k = 53" by simp
      with lo n53 have "int n = 2 ^ 53"
        by (simp add: nat_numeral)
      then have "int n = int (2 ^ 53)" by simp
      then have n: "n = 2 ^ 53"
        by (simp only: of_nat_eq_iff)
      show ?thesis
        unfolding n by (simp add: rounding_defs Let_def)
    qed
  qed
qed

lemma toDouble_minus: "toDouble (- x) = - toDouble x"
  by (simp add: toDouble_def Let_def)

lemma toDouble_of_int:
  assumes "\<bar>z\<bar> \<le> 2 ^ 53"
  shows "toDouble (of_int z) = of_int z"
proof -
  from assms have "nat \<bar>z\<bar> \<le> 2 ^ 53"
    by (simp add: nat_le_iff)
  from toDouble_of_nat [OF this] have abs: "toDouble (of_int \<bar>z\<bar>) = of_int \<bar>z\<bar>"
    by simp
  show ?thesis
  proof (cases "0 \<le> z")
    case True
    with abs show ?thesis by simp
  next
    case False
    then have "of_int z = - (of_int \<bar>z\<bar> :: real)" by simp
    then have "toDouble (of_int z) = - toDouble (of_int \<bar>z\<bar>)"
      by (simp only: toDouble_minus)
    with abs False show ?thesis by simp
  qed
qed

lemma foldl_add_sum_list: "foldl (\<lambda>s x. s + f x) a xs = a + sum_list (map f xs)"
  for a :: real
  by (induction xs arbitrary: a) simp_all

lemma forEachTransaction_snoc:
  "forEachTransaction ps (txs @ [tx]) =
     (case forEachTransaction ps txs of Inl e \<Rightarrow> Inl e | Inr ps' \<Rightarrow> applyTransaction ps' tx)"
  by (induction txs arbitrary: ps) (simp_all split: sum.splits)

lemma getProperty_Own [simp]: "getProperty ps k = Own p \<longleftrightarrow> map_of ps k = Some p"
  by (simp add: getProperty_def split: option.splits)

lemma getProperty_Undefined [simp]:
  "getProperty ps k = Undefined \<longleftrightarrow> map_of ps k = None \<and> k \<notin> set objectPrototypeKeys"
  by (simp add: getProperty_def split: option.splits)

lemma getProperty_Inherited [simp]:
  "getProperty ps k = Inherited \<longleftrightarrow> map_of ps k = None \<and> k \<in> set objectPrototypeKeys"
  by (simp add: getProperty_def split: option.splits)

lemma applyTransaction_distinct:
  "applyTransaction ps tx = Inr ps' \<Longrightarrow> distinct (map fst ps) \<Longrightarrow> distinct (map fst ps')"
  by (auto simp: applyTransaction_def Let_def AList.distinct_update
      split: property.splits if_splits)

lemma positionOf_other:
  "tx_yahooTicker tx \<noteq> t \<Longrightarrow> positionOf t (txs @ [tx]) = positionOf t txs"
  by (simp add: positionOf_def)

lemma positionOf_first:
  "tx_yahooTicker tx \<notin> tx_yahooTicker ` set txs \<Longrightarrow>
     positionOf (tx_yahooTicker tx) (txs @ [tx]) =
       (if tx_type tx = ''buy'' then
          (newPosition tx)\<lparr>pos_buys := [newLot tx],
                            pos_currentQuantity := jsAdd 0 (tx_quantity tx)\<rparr>
        else if tx_type tx = ''sell'' then
          (newPosition tx)\<lparr>pos_sells := [newLot tx],
                            pos_currentQuantity := jsSub 0 (tx_quantity tx)\<rparr>
        else newPosition tx)"
proof -
  assume "tx_yahooTicker tx \<notin> tx_yahooTicker ` set txs"
  then have "\<forall>y\<in>set txs. tx_yahooTicker y \<noteq> tx_yahooTicker tx"
    by (metis imageI)
  then have "filter (\<lambda>y. tx_yahooTicker y = tx_yahooTicker tx) txs = []"
    by (simp add: filter_empty_conv)
  then show ?thesis
    by (simp add: positionOf_def newPosition_def quantityStep_def)
qed

lemma positionOf_later:
  "tx_yahooTicker tx \<in> tx_yahooTicker ` set txs \<Longrightarrow>
     positionOf (tx_yahooTicker tx) (txs @ [tx]) =
       (let p = positionOf (tx_yahooTicker tx) txs in
        if tx_type tx = ''buy'' then
          p\<lparr>pos_buys := pos_buys p @ [newLot tx],
            pos_currentQuantity := jsAdd (pos_currentQuantity p) (tx_quantity tx)\<rparr>
        else if tx_type tx = ''sell'' then
          p\<lparr>pos_sells := pos_sells p @ [newLot tx],
            pos_currentQuantity := jsSub (pos_currentQuantity p) (tx_quantity tx)\<rparr>
        else p)"
proof -
  assume "tx_yahooTicker tx \<in> tx_yahooTicker ` set txs"
  then have "filter (\<lambda>y. tx_yahooTicker y = tx_yahooTicker tx) txs \<noteq> []"
    by (auto simp: filter_empty_conv)
  then show ?thesis
    by (simp add: positionOf_def Let_def quantityStep_def)
qed

lemma applyTransaction_positionsOf:
  assumes "applyTransaction ps tx = Inr ps'" and "map_of ps = positionsOf txs"
  shows "map_of ps' = positionsOf (txs @ [tx])"
proof (rule ext)
  fix t
  show "map_of ps' t = positionsOf (txs @ [tx]) t"
  proof (cases "t = tx_yahooTicker tx")
    case False
    have "map_of ps' t = map_of ps t"
      using assms(1) False
      by (auto simp: applyTransaction_def Let_def AList.update_conv'
          split: property.splits if_splits)
    also have "\<dots> = positionsOf (txs @ [tx]) t"
      using False by (auto simp: assms(2) positionsOf_def positionOf_other)
    finally show ?thesis .
  next
    case True
    show ?thesis
    proof (cases "t \<in> set objectPrototypeKeys")
      case proto: True
      then have "map_of ps t = None"
        by (simp add: assms(2) positionsOf_def)
      then have "ps' = ps"
        using assms(1) True proto
        by (auto simp: applyTransaction_def Let_def split: property.splits if_splits)
      then show ?thesis
        using proto \<open>map_of ps t = None\<close> by (simp add: positionsOf_def)
    next
      case noproto: False
      show ?thesis
      proof (cases "t \<in> tx_yahooTicker ` set txs")
        case seen: True
        then have old: "map_of ps t = Some (positionOf t txs)"
          using noproto by (simp add: assms(2) positionsOf_def)
        have "map_of ps' t = Some (positionOf t (txs @ [tx]))"
          using assms(1) old seen unfolding True
          by (auto simp: applyTransaction_def Let_def AList.update_conv' positionOf_later
              split: property.splits if_splits)
        then show ?thesis
          using noproto True by (simp add: positionsOf_def)
      next
        case unseen: False
        then have old: "map_of ps t = None"
          by (simp add: assms(2) positionsOf_def)
        have "map_of ps' t = Some (positionOf t (txs @ [tx]))"
          using assms(1) old unseen noproto unfolding True
          by (auto simp: applyTransaction_def Let_def AList.update_conv' positionOf_first newPosition_def
              split: property.splits if_splits)
        then show ?thesis
          using noproto True by (simp add: positionsOf_def)
      qed
    qed
  qed
qed

lemma forEachTransaction_positionsOf:
  "forEachTransaction [] txs = Inr ps \<Longrightarrow> distinct (map fst ps) \<and> map_of ps = positionsOf txs"
proof (induction txs arbitrary: ps rule: rev_induct)
  case Nil
  then show ?case by (auto simp: positionsOf_def)
next
  case (snoc tx txs)
  from snoc.prems obtain ps0 where
    run: "forEachTransaction [] txs = Inr ps0" and step: "applyTransaction ps0 tx = Inr ps"
    by (auto simp: forEachTransaction_snoc split: sum.splits)
  from snoc.IH [OF run] have d: "distinct (map fst ps0)" and m: "map_of ps0 = positionsOf txs"
    by simp_all
  from applyTransaction_distinct [OF step d] applyTransaction_positionsOf [OF step m]
  show ?case by simp
qed


lemma calculatePositions_positionsOf:
  "calculatePositions txs = Inr ps \<Longrightarrow> distinct (map fst ps) \<and> map_of ps = positionsOf txs"
  unfolding calculatePositions_def by (rule forEachTransaction_positionsOf)

lemma applyTransaction_Inl:
  "applyTransaction ps tx = Inl e \<longleftrightarrow>
     e = TypeError \<and> map_of ps (tx_yahooTicker tx) = None \<and>
     tx_yahooTicker tx \<in> set objectPrototypeKeys \<and> (tx_type tx = ''buy'' \<or> tx_type tx = ''sell'')"
  by (auto simp: applyTransaction_def Let_def AList.update_conv' split: property.splits if_splits)

lemma forEachTransaction_Inl:
  "forEachTransaction [] txs = Inl e \<longleftrightarrow> e = TypeError \<and> list_ex throwing txs"
proof (induction txs arbitrary: e rule: rev_induct)
  case Nil
  then show ?case by simp
next
  case (snoc tx txs)
  show ?case
  proof (cases "forEachTransaction [] txs")
    case (Inl e')
    with snoc.IH [of e'] snoc.IH [of e] show ?thesis
      by (auto simp: forEachTransaction_snoc)
  next
    case (Inr ps0)
    then have m: "map_of ps0 = positionsOf txs"
      by (simp add: forEachTransaction_positionsOf)
    have none: "tx_yahooTicker tx \<in> set objectPrototypeKeys \<Longrightarrow> map_of ps0 (tx_yahooTicker tx) = None"
      by (simp add: m positionsOf_def)
    from Inr snoc.IH [of TypeError] have quiet: "\<not> list_ex throwing txs"
      by simp
    have "applyTransaction ps0 tx = Inl e \<longleftrightarrow> e = TypeError \<and> throwing tx"
      using none by (auto simp: applyTransaction_Inl throwing_def)
    then show ?thesis
      using Inr quiet by (simp add: forEachTransaction_snoc)
  qed
qed

lemma calculatePositions_Inl:
  "calculatePositions txs = Inl e \<longleftrightarrow> e = TypeError \<and> list_ex throwing txs"
  unfolding calculatePositions_def by (rule forEachTransaction_Inl)

lemma calculatePositions_Inr_iff:
  "(\<exists>ps. calculatePositions txs = Inr ps) \<longleftrightarrow> \<not> list_ex throwing txs"
proof (cases "calculatePositions txs")
  case (Inl e)
  then show ?thesis using calculatePositions_Inl [of txs e] by simp
next
  case (Inr ps)
  then show ?thesis using calculatePositions_Inl [of txs TypeError] by simp
qed

lemma foldl_separateStep:
  "foldl separateStep (a, b) vals =
     (a @ filter (\<lambda>p. pos_currentQuantity p > 0) vals,
      b @ filter (\<lambda>p. \<not> pos_currentQuantity p > 0 \<and> length (pos_sells p) > 0) vals)"
  by (induction vals arbitrary: a b) (simp_all add: separateStep_def)

lemma separatePositions_filter:
  "separatePositions vals =
     (filter (\<lambda>p. pos_currentQuantity p > 0) vals,
      filter (\<lambda>p. \<not> pos_currentQuantity p > 0 \<and> length (pos_sells p) > 0) vals)"
  by (simp add: separatePositions_def foldl_separateStep)

lemma set_objectValues: "set (objectValues ps) = snd ` set ps"
proof -
  have "set (filter (\<lambda>kv. arrayIndex (fst kv) \<noteq> None) ps) \<union>
      set (filter (\<lambda>kv. arrayIndex (fst kv) = None) ps) = set ps"
    by auto
  then have "snd ` set (filter (\<lambda>kv. arrayIndex (fst kv) \<noteq> None) ps) \<union>
      snd ` set (filter (\<lambda>kv. arrayIndex (fst kv) = None) ps) = snd ` set ps"
    by (metis image_Un)
  then show ?thesis
    by (simp add: objectValues_def)
qed

lemma pos_ticker_positionOf: "pos_ticker (positionOf t txs) = t"
  by (simp add: positionOf_def Let_def)

lemma calculatePositions_entry:
  assumes "calculatePositions txs = Inr ps" and "(t, p) \<in> set ps"
  shows "p = positionOf t txs" and "t \<in> tx_yahooTicker ` set txs"
    and "t \<notin> set objectPrototypeKeys"
proof -
  from calculatePositions_positionsOf [OF assms(1)]
  have d: "distinct (map fst ps)" and m: "map_of ps = positionsOf txs" by simp_all
  from d assms(2) have "map_of ps t = Some p" by simp
  then have "positionsOf txs t = Some p" by (simp add: m)
  then show "p = positionOf t txs" and "t \<in> tx_yahooTicker ` set txs"
    and "t \<notin> set objectPrototypeKeys"
    by (simp_all add: positionsOf_def split: if_splits)
qed

lemma objectValues_ticker_inj:
  assumes "calculatePositions txs = Inr ps"
    and "p \<in> set (objectValues ps)" and "q \<in> set (objectValues ps)"
    and "pos_ticker p = pos_ticker q"
  shows "p = q"
proof -
  from assms(2,3) obtain t u where "(t, p) \<in> set ps" and "(u, q) \<in> set ps"
    by (auto simp: set_objectValues)
  then have "p = positionOf t txs" and "q = positionOf u txs"
    using calculatePositions_entry(1) [OF assms(1)] by simp_all
  with assms(4) show ?thesis
    by (simp add: pos_ticker_positionOf)
qed

lemma objectValues_ticker_seen:
  assumes "calculatePositions txs = Inr ps" and "p \<in> set (objectValues ps)"
  shows "pos_ticker p \<in> tx_yahooTicker ` set txs"
proof -
  from assms(2) obtain t where entry: "(t, p) \<in> set ps"
    by (auto simp: set_objectValues)
  from calculatePositions_entry(1,2) [OF assms(1) entry] show ?thesis
    by (simp add: pos_ticker_positionOf)
qed

lemma exampleLedger_positions:
  "calculatePositions exampleLedger =
     Inr [(''AAA'', positionOf ''AAA'' exampleLedger),
          (''BBB.AS'', positionOf ''BBB.AS'' exampleLedger),
          (''CCC'', positionOf ''CCC'' exampleLedger)]"
  by (simp add: exampleLedger_def mkTransaction_def aggregate_defs positionOf_def)

lemma exampleLedger_separate:
  "separatePositions
     (objectValues [(''AAA'', positionOf ''AAA'' exampleLedger),
          (''BBB.AS'', positionOf ''BBB.AS'' exampleLedger),
          (''CCC'', positionOf ''CCC'' exampleLedger)]) =
     ([positionOf ''AAA'' exampleLedger], [positionOf ''BBB.AS'' exampleLedger])"
  by (simp add: exampleLedger_def mkTransaction_def positionOf_def valuation_defs rounding_defs)

lemma openMetrics_plPercent:
  "open_plPercent (openMetrics stockPrices exchangeRates pos) =
     (case open_pl (openMetrics stockPrices exchangeRates pos) of
        Some l \<Rightarrow>
          if open_avgBuyPrice (openMetrics stockPrices exchangeRates pos) *
             open_quantity (openMetrics stockPrices exchangeRates pos) > 0
          then Some ((l / (open_avgBuyPrice (openMetrics stockPrices exchangeRates pos) *
             open_quantity (openMetrics stockPrices exchangeRates pos))) * 100)
          else None
      | None \<Rightarrow> None)"
  by (simp add: openMetrics_def Let_def split: option.splits)

lemma setPortfolioPercent_fields:
  "open_plPercent (setPortfolioPercent tv d) = open_plPercent d"
  "open_pl (setPortfolioPercent tv d) = open_pl d"
  "open_avgBuyPrice (setPortfolioPercent tv d) = open_avgBuyPrice d"
  "open_quantity (setPortfolioPercent tv d) = open_quantity d"
  by (simp_all add: setPortfolioPercent_def)

lemma init_openData:
  assumes "init stockPrices exchangeRates transactions = Inr dash" and "d \<in> set (openData dash)"
  shows "\<exists>tv pos. d = setPortfolioPercent tv (openMetrics stockPrices exchangeRates pos)"
  using assms
  by (auto simp: init_def Let_def split: if_splits sum.splits prod.splits) blast

lemma exampleHoldings_init:
  "init examplePrices exampleRates exampleHoldings = Inr exampleDashboard"
  by (simp add: exampleHoldings_def examplePrices_def exampleRates_def exampleDashboard_def
      mkTransaction_def aggregate_defs valuation_defs)

lemma positionOf_ignored:
  assumes "tx_type tx \<noteq> ''buy''" and "tx_type tx \<noteq> ''sell''"
  shows "pos_buys (positionOf t (xs @ tx # ys)) = pos_buys (positionOf t (xs @ ys))"
    and "pos_sells (positionOf t (xs @ tx # ys)) = pos_sells (positionOf t (xs @ ys))"
    and "pos_currentQuantity (positionOf t (xs @ tx # ys)) =
         pos_currentQuantity (positionOf t (xs @ ys))"
  using assms by (simp_all add: positionOf_def Let_def quantityStep_def)

lemma positionOf_unseen:
  assumes "t \<notin> tx_yahooTicker ` set txs"
  shows "pos_buys (positionOf t txs) = []" and "pos_sells (positionOf t txs) = []"
    and "pos_currentQuantity (positionOf t txs) = 0"
proof -
  from assms have "\<forall>y\<in>set txs. tx_yahooTicker y \<noteq> t"
    by (metis imageI)
  then have "filter (\<lambda>y. tx_yahooTicker y = t) txs = []"
    by (simp add: filter_empty_conv)
  then show "pos_buys (positionOf t txs) = []" and "pos_sells (positionOf t txs) = []"
    and "pos_currentQuantity (positionOf t txs) = 0"
    by (simp_all add: positionOf_def)
qed

lemma netQuantity_snoc:
  "netQuantity t (txs @ [tx]) =
     (if tx_yahooTicker tx = t \<and> tx_type tx = ''buy'' then netQuantity t txs + tx_quantity tx
      else if tx_yahooTicker tx = t \<and> tx_type tx = ''sell''
        then netQuantity t txs - tx_quantity tx
      else netQuantity t txs)"
  by (simp add: netQuantity_def)

lemma foldl_quantityStep_exact:
  "list_all (\<lambda>xs. toDouble (netQuantity t xs) = netQuantity t xs) (prefixes txs) \<Longrightarrow>
     foldl quantityStep 0 (filter (\<lambda>tx. tx_yahooTicker tx = t) txs) = netQuantity t txs"
proof (induction txs rule: rev_induct)
  case Nil
  then show ?case by (simp add: netQuantity_def)
next
  case (snoc tx txs)
  from snoc.prems have before: "list_all (\<lambda>xs. toDouble (netQuantity t xs) = netQuantity t xs)
      (prefixes txs)"
    and now: "toDouble (netQuantity t (txs @ [tx])) = netQuantity t (txs @ [tx])"
    by simp_all
  from snoc.IH [OF before]
  have run: "foldl quantityStep 0 (filter (\<lambda>tx. tx_yahooTicker tx = t) txs) = netQuantity t txs" .
  show ?case
  proof (cases "tx_yahooTicker tx = t")
    case False
    then show ?thesis
      using run by (simp add: netQuantity_snoc)
  next
    case True
    then have "foldl quantityStep 0 (filter (\<lambda>tx. tx_yahooTicker tx = t) (txs @ [tx])) =
        quantityStep (netQuantity t txs) tx"
      using run by simp
    also have "\<dots> = netQuantity t (txs @ [tx])"
      using now True by (auto simp: quantityStep_def jsAdd_def jsSub_def netQuantity_snoc)
    finally show ?thesis .
  qed
qed

text \<open>
  With the doubles nearest to 0.1, 0.2 and 0.3 as quantities, two buys and a sell leave
  the running quantity \<open>2\<^sup>-\<^sup>5\<^sup>4\<close>, which is above 0.
\<close>

lemma decimal_quantities_residue:
  "calculatePositions
     [mkTransaction ''AAA'' ''buy'' (toDouble (1 / 10)) 1 None 1,
      mkTransaction ''AAA'' ''buy'' (toDouble (2 / 10)) 2 None 2,
      mkTransaction ''AAA'' ''sell'' (toDouble (3 / 10)) 3 None 3] =
   Inr [(''AAA'',
         \<lparr>pos_ticker = ''AAA'', pos_name = ''AAA'', pos_localCurrency = ''EUR'',
          pos_buys =
            [\<lparr>lot_quantity = toDouble (1 / 10), lot_pricePerShare = 0,
              lot_localCurrency = ''EUR'', lot_eurValue = 1, lot_totalCosts = 0,
              lot_totalEur = 1\<rparr>,
             \<lparr>lot_quantity = toDouble (2 / 10), lot_pricePerShare = 0,
              lot_localCurrency = ''EUR'', lot_eurValue = 2, lot_totalCosts = 0,
              lot_totalEur = 2\<rparr>],
          pos_sells =
            [\<lparr>lot_quantity = toDouble (3 / 10), lot_pricePerShare = 0,
              lot_localCurrency = ''EUR'', lot_eurValue = 3, lot_totalCosts = 0,
              lot_totalEur = 3\<rparr>],
          pos_currentQuantity = 1 / 2 ^ 54\<rparr>)]"
  by (simp add: mkTransaction_def aggregate_defs)

lemma applyTransaction_ignored:
  assumes "tx_type tx \<noteq> ''buy''" and "tx_type tx \<noteq> ''sell''"
  shows "\<exists>ps1. applyTransaction ps tx = Inr ps1 \<and>
           (\<forall>t p. map_of ps t = Some p \<longrightarrow> map_of ps1 t = Some p)"
  using assms
  by (auto simp: applyTransaction_def Let_def AList.update_conv' split: property.splits)

text \<open>The rendered records are those of the separated positions, in their order.\<close>

lemma init_outputs:
  assumes "init stockPrices exchangeRates transactions = Inr dash"
  shows "\<exists>positions openPositions closedPositions.
           calculatePositions transactions = Inr positions \<and>
           separatePositions (objectValues positions) = (openPositions, closedPositions) \<and>
           map open_ticker (openData dash) = map pos_ticker openPositions \<and>
           map closed_ticker (closedData dash) = map pos_ticker closedPositions"
  using assms
  by (auto simp: init_def Let_def openMetrics_def setPortfolioPercent_def closedMetrics_def
      split: if_splits sum.splits prod.splits)

lemma init_empty: "init stockPrices exchangeRates [] = Inl NoTransactionsFound"
  by (simp add: init_def)

lemma init_Inl:
  "init stockPrices exchangeRates transactions = Inl e \<longleftrightarrow>
     (transactions = [] \<and> e = NoTransactionsFound) \<or>
     (transactions \<noteq> [] \<and> e = TypeError \<and> list_ex throwing transactions)"
proof (cases "calculatePositions transactions")
  case (Inl e')
  then show ?thesis
    using calculatePositions_Inl [of transactions e']
    by (auto simp: init_def)
next
  case (Inr ps)
  then have "\<not> list_ex throwing transactions"
    using calculatePositions_Inl [of transactions TypeError] by simp
  with Inr show ?thesis
    by (auto simp: init_def Let_def split: prod.splits)
qed

lemma calculatePositions_entry_exists:
  assumes "calculatePositions txs = Inr ps" and "t \<in> tx_yahooTicker ` set txs"
    and "t \<notin> set objectPrototypeKeys"
  shows "map_of ps t = Some (positionOf t txs)"
  using calculatePositions_positionsOf [OF assms(1)] assms(2,3)
  by (simp add: positionsOf_def)

subsection \<open>Currency converter\<close>

text \<open>
  Claim C6. For every currency code and every rate table, the converter applied to a
  null (or undefined) price returns null.
\<close>

theorem convertToEUR_null: "convertToEUR None localCurrency rates = None"
  by (simp add: convertToEUR_def)

text \<open>
  Claim C7. For every price \<open>x\<close> that is not null and every rate table, if the uppercased
  currency code is \<^verbatim>\<open>EUR\<close> then the converter returns \<open>x\<close> unchanged, so that converting
  with the code of the reporting currency is an identity, and applying it again gives
  \<open>x\<close> again.
\<close>

theorem convertToEUR_reporting_identity:
  "toUpperCase localCurrency = ''EUR'' \<Longrightarrow>
     convertToEUR (Some x) localCurrency rates = Some x \<and>
     convertToEUR (convertToEUR (Some x) localCurrency rates) localCurrency rates = Some x"
proof -
  assume up: "toUpperCase localCurrency = ''EUR''"
  then have ne: "localCurrency \<noteq> ''GBX''" by (rule toUpperCase_EUR_not_GBX)
  from up ne have "convertToEUR (Some x) localCurrency rates = Some x"
    by (simp add: convertToEUR_def)
  then show ?thesis by simp
qed

theorem convertToEUR_reporting_identity_witness:
  "toUpperCase ''eur'' = ''EUR'' \<and>
   convertToEUR (Some 5) ''eur'' [''EUR'' \<mapsto> 1, ''GBP'' \<mapsto> 2] = Some 5 \<and>
   convertToEUR (convertToEUR (Some 5) ''eur'' [''EUR'' \<mapsto> 1, ''GBP'' \<mapsto> 2]) ''eur''
     [''EUR'' \<mapsto> 1, ''GBP'' \<mapsto> 2] = Some 5"
  using convertToEUR_reporting_identity [OF toUpperCase_eur, of 5 "[''EUR'' \<mapsto> 1, ''GBP'' \<mapsto> 2]"]
    toUpperCase_eur
  by simp

text \<open>
  Claim C10. The converter compares the code with \<^verbatim>\<open>GBX\<close> exactly and before any
  uppercasing: for every price \<open>p\<close> that is not null and every rate table whose keys are
  among EUR, GBP, USD, SEK and PLN, the code \<^verbatim>\<open>GBX\<close> gives \<open>(p / 100) * rates.GBP\<close>, with
  the factor 1.17 when \<^verbatim>\<open>rates.GBP\<close> is absent or 0, and the code \<^verbatim>\<open>gbx\<close> gives \<open>p\<close>
  unchanged.
\<close>

theorem convertToEUR_GBX_case_sensitive:
  "dom rates \<subseteq> {''EUR'', ''GBP'', ''USD'', ''SEK'', ''PLN''} \<Longrightarrow>
     convertToEUR (Some p) ''GBX'' rates =
       Some ((p / 100) *
             (case rates ''GBP'' of None \<Rightarrow> 117 / 100 | Some r \<Rightarrow> if r = 0 then 117 / 100 else r)) \<and>
     convertToEUR (Some p) ''gbx'' rates = Some p"
proof -
  assume keys: "dom rates \<subseteq> {''EUR'', ''GBP'', ''USD'', ''SEK'', ''PLN''}"
  have "''GBX'' \<notin> dom rates"
    using keys by auto
  then have none: "rates ''GBX'' = None" by auto
  have pence: "convertToEUR (Some p) ''GBX'' rates =
       Some ((p / 100) *
             (case rates ''GBP'' of None \<Rightarrow> 117 / 100 | Some r \<Rightarrow> if r = 0 then 117 / 100 else r))"
    by (simp add: convertToEUR_def truthyOr_def)
  have lower: "convertToEUR (Some p) ''gbx'' rates = Some p"
    by (simp add: convertToEUR_def toUpperCase_gbx none)
  from pence lower show ?thesis by simp
qed

theorem convertToEUR_GBX_case_sensitive_witness:
  "dom [''EUR'' \<mapsto> (1::real), ''GBP'' \<mapsto> 6 / 5] \<subseteq> {''EUR'', ''GBP'', ''USD'', ''SEK'', ''PLN''} \<and>
   convertToEUR (Some 250) ''GBX'' [''EUR'' \<mapsto> 1, ''GBP'' \<mapsto> 6 / 5] = Some 3 \<and>
   convertToEUR (Some 250) ''gbx'' [''EUR'' \<mapsto> 1, ''GBP'' \<mapsto> 6 / 5] = Some 250"
proof -
  have d: "dom [''EUR'' \<mapsto> (1::real), ''GBP'' \<mapsto> 6 / 5] \<subseteq> {''EUR'', ''GBP'', ''USD'', ''SEK'', ''PLN''}"
    by simp
  show ?thesis
    using convertToEUR_GBX_case_sensitive [OF d, of 250] d by simp
qed

subsection \<open>Position aggregator\<close>

text \<open>
  Claim C2 says that for every transaction sequence and every identifier the position
  returned by \<^verbatim>\<open>calculatePositions\<close> has a running quantity equal to the sum of the
  quantities of the identifier's buys minus the sum of the quantities of its sells. The
  running quantity is a double updated by \<^verbatim>\<open>+=\<close> and \<^verbatim>\<open>-=\<close> in the order of the ledger,
  and an update can round: on the ledger buy \<open>10\<^sup>1\<^sup>6\<close>, sell 1, sell \<open>10\<^sup>1\<^sup>6\<close>, buy 1 (all
  whole numbers that are doubles) the second update gives \<open>10\<^sup>1\<^sup>6\<close> again, and the position
  ends with the quantity 1, where the buys minus the sells are 0 (also when the two sums
  are themselves taken in doubles: both are \<open>10\<^sup>1\<^sup>6\<close>).
\<close>

theorem currentQuantity_rounding_counterexample:
  "calculatePositions exampleRounding =
     Inr [(''AAA'',
           \<lparr>pos_ticker = ''AAA'', pos_name = ''AAA'', pos_localCurrency = ''EUR'',
            pos_buys =
              [\<lparr>lot_quantity = 10000000000000000, lot_pricePerShare = 0,
                lot_localCurrency = ''EUR'', lot_eurValue = 1000, lot_totalCosts = 0,
                lot_totalEur = 1000\<rparr>,
               \<lparr>lot_quantity = 1, lot_pricePerShare = 0, lot_localCurrency = ''EUR'',
                lot_eurValue = 1, lot_totalCosts = 0, lot_totalEur = 1\<rparr>],
            pos_sells =
              [\<lparr>lot_quantity = 1, lot_pricePerShare = 0, lot_localCurrency = ''EUR'',
                lot_eurValue = 1, lot_totalCosts = 0, lot_totalEur = 1\<rparr>,
               \<lparr>lot_quantity = 10000000000000000, lot_pricePerShare = 0,
                lot_localCurrency = ''EUR'', lot_eurValue = 1000, lot_totalCosts = 0,
                lot_totalEur = 1000\<rparr>],
            pos_currentQuantity = 1\<rparr>)] \<and>
   sum_list (map tx_quantity
     (filter (\<lambda>tx. tx_yahooTicker tx = ''AAA'' \<and> tx_type tx = ''buy'') exampleRounding)) -
   sum_list (map tx_quantity
     (filter (\<lambda>tx. tx_yahooTicker tx = ''AAA'' \<and> tx_type tx = ''sell'') exampleRounding)) = 0 \<and>
   netQuantity ''AAA'' exampleRounding = 0"
  by (simp add: exampleRounding_def mkTransaction_def aggregate_defs netQuantity_def)

text \<open>
  Claim C2, amended. For every transaction sequence and every identifier whose net
  quantity (buys minus sells) after each prefix of the sequence is a double, as it is
  for whole numbers of shares below \<open>2\<^sup>5\<^sup>3\<close>, the position returned by
  \<^verbatim>\<open>calculatePositions\<close> has a running quantity equal to the sum of the quantities of the
  identifier's buys minus the sum of the quantities of its sells.
\<close>

theorem currentQuantity_is_buys_minus_sells_when_exact:
  assumes "calculatePositions transactions = Inr positions"
    and "map_of positions t = Some p"
    and "list_all (\<lambda>xs. toDouble (netQuantity t xs) = netQuantity t xs) (prefixes transactions)"
  shows "pos_currentQuantity p =
       sum_list (map tx_quantity
         (filter (\<lambda>tx. tx_yahooTicker tx = t \<and> tx_type tx = ''buy'') transactions)) -
       sum_list (map tx_quantity
         (filter (\<lambda>tx. tx_yahooTicker tx = t \<and> tx_type tx = ''sell'') transactions))"
proof -
  from calculatePositions_positionsOf [OF assms(1)] assms(2)
  have "positionsOf transactions t = Some p" by simp
  then have "p = positionOf t transactions"
    by (simp add: positionsOf_def split: if_splits)
  then have "pos_currentQuantity p =
      foldl quantityStep 0 (filter (\<lambda>tx. tx_yahooTicker tx = t) transactions)"
    by (simp add: positionOf_def Let_def)
  also have "\<dots> = netQuantity t transactions"
    using assms(3) by (rule foldl_quantityStep_exact)
  finally show ?thesis
    by (simp add: netQuantity_def)
qed

theorem currentQuantity_is_buys_minus_sells_when_exact_witness:
  "calculatePositions exampleLedger =
     Inr [(''AAA'', positionOf ''AAA'' exampleLedger),
          (''BBB.AS'', positionOf ''BBB.AS'' exampleLedger),
          (''CCC'', positionOf ''CCC'' exampleLedger)] \<and>
   map_of [(''AAA'', positionOf ''AAA'' exampleLedger),
           (''BBB.AS'', positionOf ''BBB.AS'' exampleLedger),
           (''CCC'', positionOf ''CCC'' exampleLedger)] ''AAA'' =
     Some (positionOf ''AAA'' exampleLedger) \<and>
   list_all (\<lambda>xs. toDouble (netQuantity ''AAA'' xs) = netQuantity ''AAA'' xs)
     (prefixes exampleLedger) \<and>
   pos_currentQuantity (positionOf ''AAA'' exampleLedger) = (10 + 3) - 4"
proof -
  have look: "map_of [(''AAA'', positionOf ''AAA'' exampleLedger),
           (''BBB.AS'', positionOf ''BBB.AS'' exampleLedger),
           (''CCC'', positionOf ''CCC'' exampleLedger)] ''AAA'' =
     Some (positionOf ''AAA'' exampleLedger)"
    by simp
  have exact: "list_all (\<lambda>xs. toDouble (netQuantity ''AAA'' xs) = netQuantity ''AAA'' xs)
     (prefixes exampleLedger)"
    by (simp add: exampleLedger_def mkTransaction_def netQuantity_def rounding_defs)
  from currentQuantity_is_buys_minus_sells_when_exact [OF exampleLedger_positions look exact]
  have "pos_currentQuantity (positionOf ''AAA'' exampleLedger) = (10 + 3) - 4"
    by (simp add: exampleLedger_def mkTransaction_def)
  with exampleLedger_positions look exact show ?thesis by simp
qed

text \<open>
  Claim C8. A transaction whose kind is neither buy nor sell changes no position that
  exists when it is met, and dropping it from the sequence changes neither whether the
  aggregation throws nor the running quantity, the buy lots and the sell lots of any
  position; the one position that can disappear with it is the empty position of its own
  identifier.
\<close>

theorem unrecognized_kind_is_noop:
  assumes "tx_type tx \<noteq> ''buy''" and "tx_type tx \<noteq> ''sell''"
  shows "(\<exists>ps1. applyTransaction ps tx = Inr ps1 \<and>
            (\<forall>t p. map_of ps t = Some p \<longrightarrow> map_of ps1 t = Some p)) \<and>
         (calculatePositions (xs @ tx # ys) = Inl e \<longleftrightarrow> calculatePositions (xs @ ys) = Inl e) \<and>
         (calculatePositions (xs @ tx # ys) = Inr withTx \<and>
          calculatePositions (xs @ ys) = Inr withoutTx \<longrightarrow>
            dom (map_of withoutTx) \<subseteq> dom (map_of withTx) \<and>
            (\<forall>t p. map_of withTx t = Some p \<longrightarrow>
               (case map_of withoutTx t of
                  Some p' \<Rightarrow>
                    pos_currentQuantity p = pos_currentQuantity p' \<and>
                    pos_buys p = pos_buys p' \<and> pos_sells p = pos_sells p'
                | None \<Rightarrow>
                    t = tx_yahooTicker tx \<and> pos_currentQuantity p = 0 \<and>
                    pos_buys p = [] \<and> pos_sells p = [])))"
proof -
  have quiet: "\<not> throwing tx"
    using assms by (simp add: throwing_def)
  have errs: "calculatePositions (xs @ tx # ys) = Inl e \<longleftrightarrow> calculatePositions (xs @ ys) = Inl e"
    using quiet by (simp add: calculatePositions_Inl)
  have frame: "dom (map_of withoutTx) \<subseteq> dom (map_of withTx) \<and>
      (\<forall>t p. map_of withTx t = Some p \<longrightarrow>
         (case map_of withoutTx t of
            Some p' \<Rightarrow>
              pos_currentQuantity p = pos_currentQuantity p' \<and>
              pos_buys p = pos_buys p' \<and> pos_sells p = pos_sells p'
          | None \<Rightarrow>
              t = tx_yahooTicker tx \<and> pos_currentQuantity p = 0 \<and>
              pos_buys p = [] \<and> pos_sells p = []))"
    if full: "calculatePositions (xs @ tx # ys) = Inr withTx"
      and less: "calculatePositions (xs @ ys) = Inr withoutTx"
  proof -
    from calculatePositions_positionsOf [OF full]
    have mf: "map_of withTx = positionsOf (xs @ tx # ys)" by simp
    from calculatePositions_positionsOf [OF less]
    have ml: "map_of withoutTx = positionsOf (xs @ ys)" by simp
    have "dom (map_of withoutTx) \<subseteq> dom (map_of withTx)"
      by (auto simp: mf ml positionsOf_def split: if_splits)
    moreover have "case map_of withoutTx t of
            Some p' \<Rightarrow>
              pos_currentQuantity p = pos_currentQuantity p' \<and>
              pos_buys p = pos_buys p' \<and> pos_sells p = pos_sells p'
          | None \<Rightarrow>
              t = tx_yahooTicker tx \<and> pos_currentQuantity p = 0 \<and>
              pos_buys p = [] \<and> pos_sells p = []"
      if entry: "map_of withTx t = Some p" for t p
    proof -
      from entry have p: "p = positionOf t (xs @ tx # ys)"
        and seen: "t \<in> tx_yahooTicker ` set (xs @ tx # ys)"
        and noproto: "t \<notin> set objectPrototypeKeys"
        by (simp_all add: mf positionsOf_def split: if_splits)
      show ?thesis
      proof (cases "t \<in> tx_yahooTicker ` set (xs @ ys)")
        case True
        with noproto have "map_of withoutTx t = Some (positionOf t (xs @ ys))"
          by (simp add: ml positionsOf_def)
        then show ?thesis
          by (simp add: p positionOf_ignored [OF assms])
      next
        case False
        with noproto have none: "map_of withoutTx t = None"
          by (simp add: ml positionsOf_def)
        from False seen have "t = tx_yahooTicker tx" by auto
        then show ?thesis
          using none positionOf_unseen [OF False]
          by (simp add: p positionOf_ignored [OF assms])
      qed
    qed
    ultimately show ?thesis by blast
  qed
  from applyTransaction_ignored [OF assms] errs frame show ?thesis by blast
qed

theorem unrecognized_kind_is_noop_witness:
  "tx_type exampleDividend \<noteq> ''buy'' \<and>
   tx_type exampleDividend \<noteq> ''sell'' \<and>
   applyTransaction [(''AAA'', positionOf ''AAA'' [exampleBuy])] exampleDividend =
     Inr [(''AAA'', positionOf ''AAA'' [exampleBuy])] \<and>
   calculatePositions ([exampleBuy] @ exampleDividend # [exampleSell]) =
     Inr [(''AAA'', positionOf ''AAA'' [exampleBuy, exampleSell])] \<and>
   calculatePositions ([exampleBuy] @ [exampleSell]) =
     Inr [(''AAA'', positionOf ''AAA'' [exampleBuy, exampleSell])] \<and>
   pos_currentQuantity (positionOf ''AAA'' [exampleBuy, exampleSell]) = 6 \<and>
   (calculatePositions ([exampleBuy] @ exampleDividend # [exampleSell]) = Inl TypeError) =
   (calculatePositions ([exampleBuy] @ [exampleSell]) = Inl TypeError)"
proof -
  have k1: "tx_type exampleDividend \<noteq> ''buy''" and k2: "tx_type exampleDividend \<noteq> ''sell''"
    by (simp_all add: exampleDividend_def mkTransaction_def)
  note noop = unrecognized_kind_is_noop [OF k1 k2,
      of "[(''AAA'', positionOf ''AAA'' [exampleBuy])]" "[exampleBuy]" "[exampleSell]" TypeError]
  from noop have errs:
    "(calculatePositions ([exampleBuy] @ exampleDividend # [exampleSell]) = Inl TypeError) =
     (calculatePositions ([exampleBuy] @ [exampleSell]) = Inl TypeError)"
    by blast
  have step: "applyTransaction [(''AAA'', positionOf ''AAA'' [exampleBuy])] exampleDividend =
      Inr [(''AAA'', positionOf ''AAA'' [exampleBuy])]"
    by (simp add: example_defs aggregate_defs positionOf_def)
  have full: "calculatePositions ([exampleBuy] @ exampleDividend # [exampleSell]) =
      Inr [(''AAA'', positionOf ''AAA'' [exampleBuy, exampleSell])]"
    by (simp add: example_defs aggregate_defs positionOf_def)
  have less: "calculatePositions ([exampleBuy] @ [exampleSell]) =
      Inr [(''AAA'', positionOf ''AAA'' [exampleBuy, exampleSell])]"
    by (simp add: example_defs aggregate_defs positionOf_def)
  have qty: "pos_currentQuantity (positionOf ''AAA'' [exampleBuy, exampleSell]) = 6"
    by (simp add: example_defs positionOf_def rounding_defs)
  show ?thesis
    by (intro conjI k1 k2 step full less qty errs)
qed

text \<open>
  Claim C9. \<^verbatim>\<open>calculatePositions\<close> is to return an entry for every identifier of the
  sequence, also for one whose transactions all have an unrecognized kind. For an
  identifier that names a property of \<^verbatim>\<open>Object.prototype\<close> the test
  \<^verbatim>\<open>!positionsByTicker[ticker]\<close> finds the inherited property, no position is created,
  and the result has no entry for it. (For every other identifier the entry exists:
  lemma \<open>calculatePositions_entry_exists\<close>.)
\<close>

theorem inherited_name_gets_no_position:
  "calculatePositions [mkTransaction ''constructor'' ''dividend'' 1 7 None 7] = Inr []"
  by (simp add: mkTransaction_def aggregate_defs)

text \<open>
  Claim C3. For every aggregated position set, the open output holds exactly the
  positions with a running quantity above 0, the closed output exactly the positions
  with a running quantity of at most 0 and at least one sell lot, every other position
  is in neither output, and the two outputs are disjoint (as positions and as
  identifiers) with their union among the identifiers of the transactions.
\<close>

theorem open_closed_partition:
  assumes "separatePositions vals = (openPositions, closedPositions)"
  shows "set openPositions = {p \<in> set vals. pos_currentQuantity p > 0} \<and>
         set closedPositions =
           {p \<in> set vals. pos_currentQuantity p \<le> 0 \<and> length (pos_sells p) > 0} \<and>
         (\<forall>p \<in> set vals. pos_currentQuantity p \<le> 0 \<and> length (pos_sells p) = 0 \<longrightarrow>
            p \<notin> set openPositions \<and> p \<notin> set closedPositions) \<and>
         set openPositions \<inter> set closedPositions = {} \<and>
         (calculatePositions transactions = Inr positions \<and> vals = objectValues positions \<longrightarrow>
            pos_ticker ` set openPositions \<inter> pos_ticker ` set closedPositions = {} \<and>
            pos_ticker ` set openPositions \<union> pos_ticker ` set closedPositions
              \<subseteq> tx_yahooTicker ` set transactions)"
proof -
  from assms have op: "openPositions = filter (\<lambda>p. pos_currentQuantity p > 0) vals"
    and cl: "closedPositions =
      filter (\<lambda>p. \<not> pos_currentQuantity p > 0 \<and> length (pos_sells p) > 0) vals"
    by (simp_all add: separatePositions_filter)
  have a: "set openPositions = {p \<in> set vals. pos_currentQuantity p > 0}"
    by (simp add: op)
  have b: "set closedPositions =
      {p \<in> set vals. pos_currentQuantity p \<le> 0 \<and> length (pos_sells p) > 0}"
    by (auto simp: cl)
  have c: "\<forall>p \<in> set vals. pos_currentQuantity p \<le> 0 \<and> length (pos_sells p) = 0 \<longrightarrow>
      p \<notin> set openPositions \<and> p \<notin> set closedPositions"
    by (auto simp: op cl)
  have d: "set openPositions \<inter> set closedPositions = {}"
    by (auto simp: op cl)
  have e: "pos_ticker ` set openPositions \<inter> pos_ticker ` set closedPositions = {} \<and>
      pos_ticker ` set openPositions \<union> pos_ticker ` set closedPositions
        \<subseteq> tx_yahooTicker ` set transactions"
    if run: "calculatePositions transactions = Inr positions"
      and vals: "vals = objectValues positions"
  proof -
    have sub: "set openPositions \<subseteq> set vals" "set closedPositions \<subseteq> set vals"
      by (auto simp: op cl)
    have "pos_ticker ` set openPositions \<inter> pos_ticker ` set closedPositions = {}"
    proof (rule ccontr)
      assume "pos_ticker ` set openPositions \<inter> pos_ticker ` set closedPositions \<noteq> {}"
      then obtain p q where p: "p \<in> set openPositions" and q: "q \<in> set closedPositions"
        and eq: "pos_ticker p = pos_ticker q"
        by auto
      from p q sub have "p \<in> set (objectValues positions)" "q \<in> set (objectValues positions)"
        by (auto simp: vals)
      from objectValues_ticker_inj [OF run this eq] have "p = q" .
      with p q d show False by auto
    qed
    moreover have "pos_ticker ` set openPositions \<union> pos_ticker ` set closedPositions
        \<subseteq> tx_yahooTicker ` set transactions"
      using sub objectValues_ticker_seen [OF run] by (auto simp: vals)
    ultimately show ?thesis by simp
  qed
  from a b c d e show ?thesis by blast
qed

theorem open_closed_partition_witness:
  "separatePositions
     (objectValues [(''AAA'', positionOf ''AAA'' exampleLedger),
          (''BBB.AS'', positionOf ''BBB.AS'' exampleLedger),
          (''CCC'', positionOf ''CCC'' exampleLedger)]) =
     ([positionOf ''AAA'' exampleLedger], [positionOf ''BBB.AS'' exampleLedger]) \<and>
   calculatePositions exampleLedger =
     Inr [(''AAA'', positionOf ''AAA'' exampleLedger),
          (''BBB.AS'', positionOf ''BBB.AS'' exampleLedger),
          (''CCC'', positionOf ''CCC'' exampleLedger)] \<and>
   pos_currentQuantity (positionOf ''AAA'' exampleLedger) = 9 \<and>
   pos_currentQuantity (positionOf ''BBB.AS'' exampleLedger) = 0 \<and>
   length (pos_sells (positionOf ''BBB.AS'' exampleLedger)) = 1 \<and>
   pos_currentQuantity (positionOf ''CCC'' exampleLedger) = 0 \<and>
   length (pos_sells (positionOf ''CCC'' exampleLedger)) = 0 \<and>
   set [positionOf ''AAA'' exampleLedger] \<inter> set [positionOf ''BBB.AS'' exampleLedger] = {} \<and>
   pos_ticker ` set [positionOf ''AAA'' exampleLedger] \<inter>
     pos_ticker ` set [positionOf ''BBB.AS'' exampleLedger] = {} \<and>
   pos_ticker ` set [positionOf ''AAA'' exampleLedger] \<union>
     pos_ticker ` set [positionOf ''BBB.AS'' exampleLedger] \<subseteq> tx_yahooTicker ` set exampleLedger"
proof -
  note part = open_closed_partition [OF exampleLedger_separate, of exampleLedger
      "[(''AAA'', positionOf ''AAA'' exampleLedger),
          (''BBB.AS'', positionOf ''BBB.AS'' exampleLedger),
          (''CCC'', positionOf ''CCC'' exampleLedger)]"]
  from part have disj:
    "set [positionOf ''AAA'' exampleLedger] \<inter> set [positionOf ''BBB.AS'' exampleLedger] = {}"
    by blast
  from part exampleLedger_positions have ids:
    "pos_ticker ` set [positionOf ''AAA'' exampleLedger] \<inter>
       pos_ticker ` set [positionOf ''BBB.AS'' exampleLedger] = {}"
    "pos_ticker ` set [positionOf ''AAA'' exampleLedger] \<union>
       pos_ticker ` set [positionOf ''BBB.AS'' exampleLedger] \<subseteq> tx_yahooTicker ` set exampleLedger"
    by blast+
  have vals: "pos_currentQuantity (positionOf ''AAA'' exampleLedger) = 9"
    "pos_currentQuantity (positionOf ''BBB.AS'' exampleLedger) = 0"
    "length (pos_sells (positionOf ''BBB.AS'' exampleLedger)) = 1"
    "pos_currentQuantity (positionOf ''CCC'' exampleLedger) = 0"
    "length (pos_sells (positionOf ''CCC'' exampleLedger)) = 0"
    by (simp_all add: exampleLedger_def mkTransaction_def positionOf_def rounding_defs)
  show ?thesis
    by (intro conjI exampleLedger_separate exampleLedger_positions vals disj ids)
qed

subsection \<open>Valuation\<close>

text \<open>
  Claim C1. For a buy of AAA with quantity 10 and totalEur 1020 followed by a sell of AAA
  with quantity 10, eurValue 480 and totalCosts 2 (whatever the other fields), AAA ends
  with the running quantity 0 and one sell lot, is classified as closed, and its closed
  record has avgBuyPrice 102, avgSellPrice 48, quantity traded 10 and
  realizedPL \<open>(48 - 102) * 10 - 2 = - 542\<close>, by the formula
  \<open>realizedPL = (avgSellPrice - avgBuyPrice) * totalQtySold - \<Sum> sellLot.totalCosts\<close>, which
  holds of the closed record of every position.
\<close>

theorem closed_position_example:
  "(let transactions =
         [\<lparr>tx_yahooTicker = ''AAA'', tx_name = name1, tx_type = ''buy'', tx_quantity = 10,
           tx_pricePerShare = pricePerShare1, tx_localCurrency = localCurrency1,
           tx_eurValue = eurValue1, tx_totalCosts = totalCosts1, tx_totalEur = 1020\<rparr>,
          \<lparr>tx_yahooTicker = ''AAA'', tx_name = name2, tx_type = ''sell'', tx_quantity = 10,
           tx_pricePerShare = pricePerShare2, tx_localCurrency = localCurrency2,
           tx_eurValue = 480, tx_totalCosts = Some 2, tx_totalEur = totalEur2\<rparr>]
   in (\<exists>positions.
         calculatePositions transactions = Inr positions \<and>
         map (\<lambda>(t, p). (t, pos_currentQuantity p, length (pos_sells p))) positions =
           [(''AAA'', 0, 1)] \<and>
         separatePositions (objectValues positions) = ([], map snd positions)) \<and>
      init stockPrices exchangeRates transactions =
        Inr \<lparr>openData = [],
             closedData =
               [\<lparr>closed_ticker = ''AAA'', closed_name = name1, closed_quantityTraded = 10,
                 closed_avgBuyPrice = 102, closed_avgSellPrice = 48,
                 closed_totalCosts = truthyOr totalCosts1 0 + 2,
                 closed_realizedPL = (48 - 102) * 10 - 2\<rparr>],
             totalPortfolioValue = 0, totalInvested = 0, totalUnrealizedPL = 0,
             totalRealizedPL = - 542\<rparr>) \<and>
   closed_realizedPL (closedMetrics pos) =
     (closed_avgSellPrice (closedMetrics pos) - closed_avgBuyPrice (closedMetrics pos)) *
       closed_quantityTraded (closedMetrics pos) -
     sum_list (map lot_totalCosts (pos_sells pos))"
proof -
  have costs: "truthyOr (Some c) 0 = c" for c
    by (simp add: truthyOr_def)
  have "closed_realizedPL (closedMetrics pos) =
     (closed_avgSellPrice (closedMetrics pos) - closed_avgBuyPrice (closedMetrics pos)) *
       closed_quantityTraded (closedMetrics pos) -
     sum_list (map lot_totalCosts (pos_sells pos))"
    by (simp add: closedMetrics_def Let_def costs foldl_add_sum_list)
  then show ?thesis
    by (simp add: aggregate_defs valuation_defs)
qed

text \<open>
  Claim C5. For every open position of the result, plPercent is null whenever invested
  (\<open>avgBuyPrice * quantity\<close>) is 0, also when pl is known; it is \<open>(pl / invested) * 100\<close>
  when pl is known and invested is above 0; and it is not null only then, so that the
  division is never made by 0.
\<close>

theorem plPercent_guarded:
  assumes "init stockPrices exchangeRates transactions = Inr dash" and "d \<in> set (openData dash)"
  shows "(open_avgBuyPrice d * open_quantity d = 0 \<longrightarrow> open_plPercent d = None) \<and>
         (\<forall>l. open_pl d = Some l \<and> open_avgBuyPrice d * open_quantity d > 0 \<longrightarrow>
            open_plPercent d = Some ((l / (open_avgBuyPrice d * open_quantity d)) * 100)) \<and>
         (open_plPercent d \<noteq> None \<longrightarrow>
            open_pl d \<noteq> None \<and> open_avgBuyPrice d * open_quantity d > 0)"
proof -
  from init_openData [OF assms] obtain tv pos
    where d: "d = setPortfolioPercent tv (openMetrics stockPrices exchangeRates pos)"
    by blast
  have "open_plPercent d =
     (case open_pl d of
        Some l \<Rightarrow>
          if open_avgBuyPrice d * open_quantity d > 0
          then Some ((l / (open_avgBuyPrice d * open_quantity d)) * 100)
          else None
      | None \<Rightarrow> None)"
    unfolding d setPortfolioPercent_fields by (rule openMetrics_plPercent)
  then show ?thesis
    by (auto split: option.splits if_splits)
qed

theorem plPercent_guarded_witness:
  "init examplePrices exampleRates exampleHoldings = Inr exampleDashboard \<and>
   openData exampleDashboard ! 0 \<in> set (openData exampleDashboard) \<and>
   openData exampleDashboard ! 1 \<in> set (openData exampleDashboard) \<and>
   open_avgBuyPrice (openData exampleDashboard ! 0) * open_quantity (openData exampleDashboard ! 0) = 0 \<and>
   open_pl (openData exampleDashboard ! 0) = Some 25 \<and>
   open_plPercent (openData exampleDashboard ! 0) = None \<and>
   open_avgBuyPrice (openData exampleDashboard ! 1) * open_quantity (openData exampleDashboard ! 1) = 1000 \<and>
   open_pl (openData exampleDashboard ! 1) = Some 100 \<and>
   open_plPercent (openData exampleDashboard ! 1) = Some ((100 / 1000) * 100)"
proof -
  have m0: "openData exampleDashboard ! 0 \<in> set (openData exampleDashboard)"
    and m1: "openData exampleDashboard ! 1 \<in> set (openData exampleDashboard)"
    by (simp_all add: exampleDashboard_def)
  have v0: "open_avgBuyPrice (openData exampleDashboard ! 0) *
      open_quantity (openData exampleDashboard ! 0) = 0"
    and p0: "open_pl (openData exampleDashboard ! 0) = Some 25"
    and v1: "open_avgBuyPrice (openData exampleDashboard ! 1) *
      open_quantity (openData exampleDashboard ! 1) = 1000"
    and p1: "open_pl (openData exampleDashboard ! 1) = Some 100"
    by (simp_all add: exampleDashboard_def)
  from plPercent_guarded [OF exampleHoldings_init m0] v0
  have r0: "open_plPercent (openData exampleDashboard ! 0) = None"
    by blast
  from plPercent_guarded [OF exampleHoldings_init m1] v1 p1
  have r1: "open_plPercent (openData exampleDashboard ! 1) = Some ((100 / 1000) * 100)"
    by simp
  show ?thesis
    by (intro conjI exampleHoldings_init m0 m1 v0 p0 r0 v1 p1 r1)
qed

subsection \<open>Errors of the pipeline\<close>

text \<open>
  Claim C4. The empty transaction sequence is to be the one input on which the pipeline
  throws. \<^verbatim>\<open>init\<close> throws on it (lemma \<open>init_empty\<close>), but it also throws on a sequence
  that is not empty and holds a buy or a sell whose identifier names a property of
  \<^verbatim>\<open>Object.prototype\<close>: \<^verbatim>\<open>position.buys\<close> is then \<^verbatim>\<open>undefined\<close> and \<^verbatim>\<open>push\<close> throws a
  TypeError, which the \<^verbatim>\<open>catch\<close> block of \<^verbatim>\<open>init\<close> reports like the empty input. Lemma
  \<open>init_Inl\<close> lists all the inputs on which \<^verbatim>\<open>init\<close> throws.
\<close>

theorem inherited_name_throws:
  "init stockPrices exchangeRates [mkTransaction ''constructor'' ''buy'' 10 1000 (Some 20) 1020] =
     Inl TypeError"
  by (simp add: init_def mkTransaction_def aggregate_defs)

end
